theory Spec2Isabelle
  imports Complex_Main
begin

section \<open>Rectangles and points\<close>

text \<open>
  \<open>QRect\<close> is the integer rectangle of the Qt library. It stores the coordinates of its
  top-left corner \<open>(x1, y1)\<close> and of its bottom-right corner \<open>(x2, y2)\<close>, both inclusive.
  \<open>QRect::isEmpty()\<close> is \<open>x1 > x2 || y1 > y2\<close>, and the default-constructed rectangle is
  \<open>(0, 0, -1, -1)\<close>. Only these two facts and \<open>topLeft()\<close> are used by the code below,
  no coordinate arithmetic is done on this side of the interface.
\<close>

record QRect =
  x1 :: int
  y1 :: int
  x2 :: int
  y2 :: int

type_synonym QPoint = "int \<times> int"

definition QRect_default :: QRect where
  "QRect_default = \<lparr>x1 = 0, y1 = 0, x2 = - 1, y2 = - 1\<rparr>"

definition isEmpty :: "QRect \<Rightarrow> bool" where
  "isEmpty r = (x1 r > x2 r \<or> y1 r > y2 r)"

definition topLeft :: "QRect \<Rightarrow> QPoint" where
  "topLeft r = (x1 r, y1 r)"


section \<open>Paint devices behind shared pointers\<close>

text \<open>
  A \<open>KisPaintDeviceSP\<close> is a reference-counted pointer that may be null: it is an optional
  address. The devices themselves live in a store. Several pointers may name the same
  device, and every write below goes through the store, so aliasing between the cache
  device and a device handed in by a caller is visible in the model.
  \<open>fresh\<close> is the address the next \<open>new KisPaintDevice\<close> receives.
\<close>

type_synonym addr = nat

record 'd store =
  cells :: "addr \<Rightarrow> 'd"
  fresh :: addr

text \<open>
  The paint device class and \<open>KisPainter\<close> are not among the sources of this development;
  the node code only consumes them as opaque bitmap operations. They are parameters of the
  model, each field standing for one call the code makes:
  \<^item> \<open>newDevice cs\<close>: \<open>new KisPaintDevice(cs)\<close>;
  \<^item> \<open>setDefaultBounds b d\<close>: the device \<open>d\<close> after \<open>d->setDefaultBounds(b)\<close>;
  \<^item> \<open>colorSpace d\<close>: \<open>*d->colorSpace()\<close>, compared by value;
  \<^item> \<open>clearDevice d\<close>: the device after \<open>d->clear()\<close>;
  \<^item> \<open>extent d\<close>: \<open>d->extent()\<close>;
  \<^item> \<open>copyAreaOptimized pt src dst rc\<close>: the device \<open>dst\<close> after
    \<open>KisPainter::copyAreaOptimized(pt, src, dst, rc)\<close>.
\<close>

record ('d, 'cs, 'b) device_ops =
  newDevice :: "'cs \<Rightarrow> 'd"
  setDefaultBounds :: "'b \<Rightarrow> 'd \<Rightarrow> 'd"
  colorSpace :: "'d \<Rightarrow> 'cs"
  clearDevice :: "'d \<Rightarrow> 'd"
  extent :: "'d \<Rightarrow> QRect"
  copyAreaOptimized :: "QPoint \<Rightarrow> 'd \<Rightarrow> 'd \<Rightarrow> QRect \<Rightarrow> 'd"

definition write_cell :: "addr \<Rightarrow> 'd \<Rightarrow> 'd store \<Rightarrow> 'd store" where
  "write_cell a d h = h\<lparr>cells := (cells h)(a := d)\<rparr>"


section \<open>StaticCacheStorage\<close>

text \<open>
  The private class \<open>StaticCacheStorage\<close> of \<open>kis_transform_mask.cpp\<close>. Its fields keep
  their names. \<open>paramsForStaticImage\<close> is a shared pointer to transform parameters of an
  abstract type \<open>'p\<close>; \<open>staticCacheDevice\<close> is a shared pointer into the store.
  The read/write lock \<open>m_lock\<close> only serialises the accesses and is not part of the
  sequential model. The initial values are those of the member initialisers.
\<close>

record 'p StaticCacheStorage =
  staticCacheIsOverridden :: bool
  staticCacheValid :: bool
  staticCacheDevice :: "addr option"
  paramsForStaticImage :: "'p option"

definition StaticCacheStorage_init :: "'p StaticCacheStorage" where
  "StaticCacheStorage_init =
     \<lparr>staticCacheIsOverridden = False, staticCacheValid = False,
      staticCacheDevice = None, paramsForStaticImage = None\<rparr>"

text \<open>
  \<open>compareTransform\<close> is a virtual method of the parameters interface, whose
  implementations are not among the sources: \<open>cmp q P\<close> stands for
  \<open>q->compareTransform(P)\<close>, the by-value comparison of the stored parameters \<open>q\<close> with
  the pointer \<open>P\<close> passed in.

  The \<open>KIS_SAFE_ASSERT_RECOVER_NOOP\<close> checks report a failed condition and continue; they
  change neither the state nor the result. The conditions they check are kept as
  predicates of their own.
\<close>

definition isCacheValid ::
  "('p \<Rightarrow> 'p option \<Rightarrow> bool) \<Rightarrow> 'p StaticCacheStorage \<Rightarrow> 'p option \<Rightarrow> bool" where
  "isCacheValid cmp s currentParams =
     (staticCacheValid s \<and>
      (case paramsForStaticImage s of
         None \<Rightarrow> True
       | Some q \<Rightarrow> cmp q currentParams))"

definition isCacheValid_asserted :: "'p StaticCacheStorage \<Rightarrow> bool" where
  "isCacheValid_asserted s =
     (\<not> staticCacheValid s \<or> paramsForStaticImage s \<noteq> None \<or> staticCacheIsOverridden s)"

definition isCacheOverridden :: "'p StaticCacheStorage \<Rightarrow> bool" where
  "isCacheOverridden s = staticCacheIsOverridden s"

definition isCacheOverridden_asserted :: "'p StaticCacheStorage \<Rightarrow> bool" where
  "isCacheOverridden_asserted s = (\<not> staticCacheIsOverridden s \<or> staticCacheValid s)"

definition lazyAllocateStaticCache ::
  "('d, 'cs, 'b) device_ops \<Rightarrow> 'cs \<Rightarrow> 'b \<Rightarrow> 'd store \<times> 'p StaticCacheStorage
     \<Rightarrow> 'd store \<times> 'p StaticCacheStorage" where
  "lazyAllocateStaticCache D cs defaultBounds hs =
     (let h = fst hs; s = snd hs in
      if (case staticCacheDevice s of
            None \<Rightarrow> True
          | Some c \<Rightarrow> colorSpace D (cells h c) \<noteq> cs)
      then
        (let a = fresh h;
             d = setDefaultBounds D defaultBounds (newDevice D cs)
         in (h\<lparr>cells := (cells h)(a := d), fresh := Suc a\<rparr>,
             s\<lparr>staticCacheDevice := Some a\<rparr>))
      else (h, s))"

definition device :: "'p StaticCacheStorage \<Rightarrow> addr option" where
  "device s = staticCacheDevice s"

definition setDeviceCacheValid ::
  "'p option \<Rightarrow> 'p StaticCacheStorage \<Rightarrow> 'p StaticCacheStorage" where
  "setDeviceCacheValid currentParams s =
     s\<lparr>paramsForStaticImage := currentParams, staticCacheValid := True\<rparr>"

definition setDeviceCacheValid_asserted :: "'p StaticCacheStorage \<Rightarrow> bool" where
  "setDeviceCacheValid_asserted s = (\<not> staticCacheIsOverridden s)"

text \<open>
  \<open>overrideStaticCacheDevice\<close> starts with \<open>KIS_SAFE_ASSERT_RECOVER_RETURN(staticCacheDevice)\<close>:
  with no cache device allocated it returns at once. Otherwise the cache device is cleared,
  the extent of the supplied device (read after the clearing, as in the code) is copied
  into it when the supplied pointer is not null, and the three fields are written.
\<close>

definition overrideStaticCacheDevice ::
  "('d, 'cs, 'b) device_ops \<Rightarrow> addr option \<Rightarrow> 'd store \<times> 'p StaticCacheStorage
     \<Rightarrow> 'd store \<times> 'p StaticCacheStorage" where
  "overrideStaticCacheDevice D dev hs =
     (let h = fst hs; s = snd hs in
      case staticCacheDevice s of
        None \<Rightarrow> (h, s)
      | Some c \<Rightarrow>
          (let h1 = write_cell c (clearDevice D (cells h c)) h;
               h2 = (case dev of
                       None \<Rightarrow> h1
                     | Some d \<Rightarrow>
                         (let rc = extent D (cells h1 d)
                          in write_cell c
                               (copyAreaOptimized D (topLeft rc) (cells h1 d) (cells h1 c) rc)
                               h1))
           in (h2, s\<lparr>paramsForStaticImage := None,
                     staticCacheValid := (dev \<noteq> None),
                     staticCacheIsOverridden := (dev \<noteq> None)\<rparr>)))"

definition invalidateDeviceCache :: "'p StaticCacheStorage \<Rightarrow> 'p StaticCacheStorage" where
  "invalidateDeviceCache s = s\<lparr>staticCacheValid := False, paramsForStaticImage := None\<rparr>"

definition invalidateDeviceCache_asserted :: "'p StaticCacheStorage \<Rightarrow> bool" where
  "invalidateDeviceCache_asserted s = (\<not> staticCacheIsOverridden s)"

text \<open>
  The six operations of the class as one step function on the store and the storage.
  The two queries leave both unchanged.
\<close>

datatype ('p, 'cs, 'b) cache_op =
    Op_isCacheValid "'p option"
  | Op_isCacheOverridden
  | Op_lazyAllocateStaticCache 'cs 'b
  | Op_setDeviceCacheValid "'p option"
  | Op_overrideStaticCacheDevice "addr option"
  | Op_invalidateDeviceCache

fun cache_step ::
  "('d, 'cs, 'b) device_ops \<Rightarrow> ('p, 'cs, 'b) cache_op \<Rightarrow> 'd store \<times> 'p StaticCacheStorage
     \<Rightarrow> 'd store \<times> 'p StaticCacheStorage" where
  "cache_step D (Op_isCacheValid P) hs = hs"
| "cache_step D Op_isCacheOverridden hs = hs"
| "cache_step D (Op_lazyAllocateStaticCache cs b) hs = lazyAllocateStaticCache D cs b hs"
| "cache_step D (Op_setDeviceCacheValid P) hs = (fst hs, setDeviceCacheValid P (snd hs))"
| "cache_step D (Op_overrideStaticCacheDevice dev) hs = overrideStaticCacheDevice D dev hs"
| "cache_step D Op_invalidateDeviceCache hs = (fst hs, invalidateDeviceCache (snd hs))"

definition overridden_implies_valid :: "'p StaticCacheStorage \<Rightarrow> bool" where
  "overridden_implies_valid s = (staticCacheIsOverridden s \<longrightarrow> staticCacheValid s)"



section \<open>KisPaintOpPresetUpdateProxy: compression and postponement of updates\<close>

text \<open>
  The proxy keeps two \<open>int\<close> counters and a \<open>KisSignalCompressor\<close> (100 ms,
  \<open>FIRST_ACTIVE\<close>), whose \<open>timeout()\<close> signal is connected to
  \<open>slotDeliverSettingsChanged\<close>. The compressor class is not among the sources: the model
  counts the calls of \<open>updatesCompressor.start()\<close>, and a timeout of the compressor is a
  call of \<open>slotDeliverSettingsChanged\<close>. The signals the proxy emits are appended to
  \<open>proxy_emitted\<close> in the order of emission. A C++ \<open>int\<close> used as a condition is true when
  it is not zero. The counters are mathematical integers here; the theorems about them
  keep them below \<open>2^31\<close>, where the two agree.
\<close>

datatype proxy_signal =
    sigSettingsChangedUncompressedEarlyWarning
  | sigSettingsChangedUncompressed
  | sigSettingsChanged
  | sigUniformPropertiesChanged

record KisPaintOpPresetUpdateProxy =
  updatesBlocked :: int
  numUpdatesWhileBlocked :: int
  updatesCompressor_starts :: nat
  proxy_emitted :: "proxy_signal list"

definition KisPaintOpPresetUpdateProxy_init :: KisPaintOpPresetUpdateProxy where
  "KisPaintOpPresetUpdateProxy_init =
     \<lparr>updatesBlocked = 0, numUpdatesWhileBlocked = 0,
      updatesCompressor_starts = 0, proxy_emitted = []\<rparr>"

definition notifySettingsChanged ::
  "KisPaintOpPresetUpdateProxy \<Rightarrow> KisPaintOpPresetUpdateProxy" where
  "notifySettingsChanged p =
     (if updatesBlocked p \<noteq> 0
      then p\<lparr>numUpdatesWhileBlocked := numUpdatesWhileBlocked p + 1\<rparr>
      else p\<lparr>proxy_emitted := proxy_emitted p @
                 [sigSettingsChangedUncompressedEarlyWarning, sigSettingsChangedUncompressed],
             updatesCompressor_starts := Suc (updatesCompressor_starts p)\<rparr>)"

definition notifyUniformPropertiesChanged ::
  "KisPaintOpPresetUpdateProxy \<Rightarrow> KisPaintOpPresetUpdateProxy" where
  "notifyUniformPropertiesChanged p =
     p\<lparr>proxy_emitted := proxy_emitted p @ [sigUniformPropertiesChanged]\<rparr>"

definition postponeSettingsChanges ::
  "KisPaintOpPresetUpdateProxy \<Rightarrow> KisPaintOpPresetUpdateProxy" where
  "postponeSettingsChanges p = p\<lparr>updatesBlocked := updatesBlocked p + 1\<rparr>"

definition unpostponeSettingsChanges ::
  "KisPaintOpPresetUpdateProxy \<Rightarrow> KisPaintOpPresetUpdateProxy" where
  "unpostponeSettingsChanges p =
     (let p1 = p\<lparr>updatesBlocked := updatesBlocked p - 1\<rparr> in
      if updatesBlocked p1 = 0 \<and> numUpdatesWhileBlocked p1 \<noteq> 0
      then p1\<lparr>numUpdatesWhileBlocked := 0,
              proxy_emitted := proxy_emitted p1 @
                [sigSettingsChangedUncompressedEarlyWarning,
                 sigSettingsChangedUncompressed,
                 sigSettingsChanged]\<rparr>
      else p1)"

definition slotDeliverSettingsChanged ::
  "KisPaintOpPresetUpdateProxy \<Rightarrow> KisPaintOpPresetUpdateProxy" where
  "slotDeliverSettingsChanged p =
     (if updatesBlocked p \<noteq> 0
      then p\<lparr>numUpdatesWhileBlocked := numUpdatesWhileBlocked p + 1\<rparr>
      else p\<lparr>proxy_emitted := proxy_emitted p @ [sigSettingsChanged]\<rparr>)"

text \<open>The signals emitted since an earlier state of the proxy.\<close>

definition emitted_since ::
  "KisPaintOpPresetUpdateProxy \<Rightarrow> KisPaintOpPresetUpdateProxy \<Rightarrow> proxy_signal list" where
  "emitted_since p p' = drop (length (proxy_emitted p)) (proxy_emitted p')"


section \<open>KisImageSignalRouter\<close>

text \<open>
  A notification is a tagged structure: the tag \<open>id\<close> (written \<open>id'\<close>, as \<open>id\<close> is the
  identity function of HOL) and the payloads the router reads. A \<open>KisNodeSP\<close> is a pointer
  that may be null, a \<open>KisNodeList\<close> a list of nodes; \<open>QPointF\<close> and the resolutions are
  passed through unchanged.
\<close>

datatype KisImageSignalTypeEnum =
    LayersChangedSignal
  | ModifiedWithoutUndoSignal
  | SizeChangedSignal
  | ProfileChangedSignal
  | ColorSpaceChangedSignal
  | ResolutionChangedSignal
  | NodeReselectionRequestSignal

type_synonym QPointF = "real \<times> real"

record ComplexSizeChangedSignal =
  oldStillPoint :: QPointF
  newStillPoint :: QPointF

record 'n ComplexNodeReselectionSignal =
  newActiveNode :: "'n option"
  newSelectedNodes :: "'n list"

record 'n KisImageSignalType =
  id' :: KisImageSignalTypeEnum
  sizeChangedSignal :: ComplexSizeChangedSignal
  nodeReselectionSignal :: "'n ComplexNodeReselectionSignal"

text \<open>
  What the router reads from and does to the image: its profile, colour space and
  resolution, and the number of \<open>invalidateAllFrames()\<close> calls it has received.
\<close>

record ('prof, 'ics) KisImage =
  image_profile :: 'prof
  image_colorSpace :: 'ics
  xRes :: real
  yRes :: real
  invalidateAllFrames_calls :: nat

definition invalidateAllFrames :: "('prof, 'ics) KisImage \<Rightarrow> ('prof, 'ics) KisImage" where
  "invalidateAllFrames img =
     img\<lparr>invalidateAllFrames_calls := Suc (invalidateAllFrames_calls img)\<rparr>"

text \<open>
  The signals of the router that its constructor connects to the signals of the image,
  which the subscribers of the image receive. The connections are direct ones, but for
  \<open>sigProfileChanged\<close> and \<open>sigColorSpaceChanged\<close>, whose connections to the image are
  queued ones.
\<close>

datatype ('n, 'prof, 'ics) router_signal =
    sigLayersChangedAsync
  | sigImageModifiedWithoutUndo
  | sigSizeChanged QPointF QPointF
  | sigProfileChanged 'prof
  | sigColorSpaceChanged 'ics
  | sigResolutionChanged real real
  | sigRequestNodeReselection "'n option" "'n list"

text \<open>
  \<open>m_image\<close> is a weak pointer: \<open>toStrongRef()\<close> yields null once the image is gone.
  \<open>delivered\<close> lists the signals emitted towards the image, oldest first.
  \<open>sigNotification_queue\<close> is the part of the event queue of the router's thread that holds
  the calls of \<open>slotNotification\<close> posted by a queued delivery of \<open>sigNotification\<close> and
  not yet run, oldest first.
\<close>

record ('n, 'prof, 'ics) KisImageSignalRouter =
  m_image :: "('prof, 'ics) KisImage option"
  delivered :: "('n, 'prof, 'ics) router_signal list"
  sigNotification_queue :: "'n KisImageSignalType list"

definition emit_signal ::
  "('n, 'prof, 'ics) router_signal \<Rightarrow> ('n, 'prof, 'ics) KisImageSignalRouter
     \<Rightarrow> ('n, 'prof, 'ics) KisImageSignalRouter" where
  "emit_signal sg r = r\<lparr>delivered := delivered r @ [sg]\<rparr>"

definition slotNotification ::
  "'n KisImageSignalType \<Rightarrow> ('n, 'prof, 'ics) KisImageSignalRouter
     \<Rightarrow> ('n, 'prof, 'ics) KisImageSignalRouter" where
  "slotNotification type r =
     (case m_image r of
        None \<Rightarrow> r
      | Some img \<Rightarrow>
          (case id' type of
             LayersChangedSignal \<Rightarrow>
               emit_signal sigLayersChangedAsync
                 (r\<lparr>m_image := Some (invalidateAllFrames img)\<rparr>)
           | ModifiedWithoutUndoSignal \<Rightarrow>
               emit_signal sigImageModifiedWithoutUndo r
           | SizeChangedSignal \<Rightarrow>
               emit_signal
                 (sigSizeChanged (oldStillPoint (sizeChangedSignal type))
                                 (newStillPoint (sizeChangedSignal type)))
                 (r\<lparr>m_image := Some (invalidateAllFrames img)\<rparr>)
           | ProfileChangedSignal \<Rightarrow>
               emit_signal (sigProfileChanged (image_profile img))
                 (r\<lparr>m_image := Some (invalidateAllFrames img)\<rparr>)
           | ColorSpaceChangedSignal \<Rightarrow>
               emit_signal (sigColorSpaceChanged (image_colorSpace img))
                 (r\<lparr>m_image := Some (invalidateAllFrames img)\<rparr>)
           | ResolutionChangedSignal \<Rightarrow>
               emit_signal (sigResolutionChanged (xRes img) (yRes img))
                 (r\<lparr>m_image := Some (invalidateAllFrames img)\<rparr>)
           | NodeReselectionRequestSignal \<Rightarrow>
               if newActiveNode (nodeReselectionSignal type) \<noteq> None \<or>
                  newSelectedNodes (nodeReselectionSignal type) \<noteq> []
               then emit_signal
                      (sigRequestNodeReselection
                         (newActiveNode (nodeReselectionSignal type))
                         (newSelectedNodes (nodeReselectionSignal type)))
                      r
               else r))"










section \<open>KisTransformMask\<close>

text \<open>
  The position of a node relative to the edited one, with the three values the mask
  names, and the flags of a render pass. \<open>KisRenderPassFlags\<close> is a set of flags,
  \<open>testFlag f\<close> is membership; the mask only tests \<open>NoTransformMaskUpdates\<close>.
\<close>

datatype PositionToFilthy = N_ABOVE_FILTHY | N_FILTHY | N_BELOW_FILTHY

datatype KisRenderPassFlag = NoTransformMaskUpdates

text \<open>\<open>QRect(x, y, w, h)\<close>: the rectangle with top-left corner \<open>(x, y)\<close> and the given size.\<close>

definition QRect_xywh :: "int \<Rightarrow> int \<Rightarrow> int \<Rightarrow> int \<Rightarrow> QRect" where
  "QRect_xywh x y w h = \<lparr>x1 = x, y1 = y, x2 = x + w - 1, y2 = y + h - 1\<rparr>"

text \<open>
  What the mask reads from its parent node:
  \<^item> \<open>parent_isLayer\<close>: whether \<open>qobject_cast<KisLayer*>(parent().data())\<close> succeeds;
  \<^item> \<open>parent_bounds\<close>: \<open>parent->original()->defaultBounds()->bounds()\<close>;
  \<^item> \<open>parent_extent\<close>: \<open>parent->original()->extent()\<close>;
  \<^item> \<open>parent_image_locked\<close>: \<open>None\<close> when \<open>parentLayer->image()\<close> is null, otherwise the
    value of \<open>image->locked()\<close>.
\<close>

record parent_node =
  parent_isLayer :: bool
  parent_bounds :: QRect
  parent_extent :: QRect
  parent_image_locked :: "bool option"

record 't KisPerspectiveTransformWorker =
  forceSubPixelTranslation :: bool
  forwardTransform :: 't

text \<open>
  The collaborators of the mask that are not among the sources are parameters of the
  model. \<open>'p\<close> is the type of transform parameters, \<open>'t\<close> that of \<open>QTransform\<close>, a matrix of
  floating-point numbers that the mask only hands on.
  \<^item> \<open>isHidden\<close>, \<open>isAffine\<close>, \<open>finalAffineTransform\<close>, \<open>compareTransform\<close>,
    \<open>nonAffineChangeRect\<close>, \<open>nonAffineNeedRect\<close>: the virtual methods of the parameters;
  \<^item> \<open>transformDevice p src dst f\<close>: the device \<open>dst\<close> after
    \<open>p->transformDevice(mask, src, dst, f)\<close>;
  \<^item> \<open>runPartialDst w src dst rc\<close>: the device \<open>dst\<close> after \<open>worker.runPartialDst(src, dst, rc)\<close>
    with the worker in state \<open>w\<close>;
  \<^item> \<open>blowRect\<close>: \<open>KisAlgebra2D::blowRect\<close>; \<open>kisGrowRect\<close>: the function of that name;
  \<^item> \<open>mapRectForward t limitingRect interestRect rect\<close>:
    \<open>KisSafeTransform(t, limitingRect, interestRect).mapRectForward(rect)\<close>, and
    \<open>mapRectBackward\<close> likewise.
\<close>

record ('p, 't, 'd) mask_ops =
  isHidden :: "'p \<Rightarrow> bool"
  isAffine :: "'p \<Rightarrow> bool"
  finalAffineTransform :: "'p \<Rightarrow> 't"
  compareTransform :: "'p \<Rightarrow> 'p option \<Rightarrow> bool"
  nonAffineChangeRect :: "'p \<Rightarrow> QRect \<Rightarrow> QRect"
  nonAffineNeedRect :: "'p \<Rightarrow> QRect \<Rightarrow> QRect \<Rightarrow> QRect"
  transformDevice :: "'p \<Rightarrow> 'd \<Rightarrow> 'd \<Rightarrow> bool \<Rightarrow> 'd"
  runPartialDst :: "'t KisPerspectiveTransformWorker \<Rightarrow> 'd \<Rightarrow> 'd \<Rightarrow> QRect \<Rightarrow> 'd"
  blowRect :: "QRect \<Rightarrow> real \<Rightarrow> QRect"
  kisGrowRect :: "QRect \<Rightarrow> int \<Rightarrow> QRect"
  mapRectForward :: "'t \<Rightarrow> QRect \<Rightarrow> QRect \<Rightarrow> QRect \<Rightarrow> QRect"
  mapRectBackward :: "'t \<Rightarrow> QRect \<Rightarrow> QRect \<Rightarrow> QRect \<Rightarrow> QRect"

text \<open>
  The calls the mask makes on the update signal compressor, the image, the testing
  interface and the progress indicator, in the order in which they are made.
\<close>

datatype mask_call =
    updateSignalCompressor_start
  | updateSignalCompressor_stop
  | addSpontaneousJob QRect
  | notifySlotDelayedStaticUpdate
  | notifyDecorateRectTriggeredStaticImageUpdate
  | busyProgressIndicator_update

text \<open>
  The state of a mask: the fields of \<open>KisTransformMask::Private\<close> the functions below touch,
  what the parameters holder answers (\<open>bakeIntoParams()\<close>, \<open>isAnimated()\<close>,
  \<open>defaultBounds()->externalFrameActive()\<close>), the parent, the store of paint devices and
  the calls made so far. \<open>forcedStaticUpdateExtraUpdateRect\<close> is the rectangle held by the
  \<open>AccumulatedRectStorage\<close>; \<open>testingInterface\<close> tells whether a testing interface is set.
\<close>

record ('p, 't, 'd) KisTransformMask =
  worker :: "'t KisPerspectiveTransformWorker"
  bakeIntoParams :: 'p
  isAnimated :: bool
  externalFrameActive :: bool
  staticCache :: "'p StaticCacheStorage"
  recalculatingStaticImage :: bool
  forcedStaticUpdateExtraUpdateRect :: QRect
  offBoundsReadArea :: real
  testingInterface :: bool
  parent :: "parent_node option"
  devices :: "'d store"
  calls :: "mask_call list"

definition call :: "mask_call \<Rightarrow> ('p, 't, 'd) KisTransformMask \<Rightarrow> ('p, 't, 'd) KisTransformMask" where
  "call c st = st\<lparr>calls := calls st @ [c]\<rparr>"

subsection \<open>Starting the regeneration job\<close>

definition takeRect :: "('p, 't, 'd) KisTransformMask \<Rightarrow> QRect \<times> ('p, 't, 'd) KisTransformMask" where
  "takeRect st =
     (forcedStaticUpdateExtraUpdateRect st,
      st\<lparr>forcedStaticUpdateExtraUpdateRect := QRect_default\<rparr>)"

definition startAsyncRegenerationJob ::
  "('p, 't, 'd) KisTransformMask \<Rightarrow> ('p, 't, 'd) KisTransformMask" where
  "startAsyncRegenerationJob st =
     (case parent st of
        None \<Rightarrow> st
      | Some p \<Rightarrow>
          if \<not> parent_isLayer p then st
          else
            (case parent_image_locked p of
               None \<Rightarrow> st
             | Some locked \<Rightarrow>
                 if locked then call updateSignalCompressor_start st
                 else
                   (let (extraUpdateRect, st1) = takeRect st
                    in call (addSpontaneousJob extraUpdateRect) st1)))"

definition slotDelayedStaticUpdate ::
  "('p, 't, 'd) KisTransformMask \<Rightarrow> ('p, 't, 'd) KisTransformMask" where
  "slotDelayedStaticUpdate st =
     startAsyncRegenerationJob
       (if testingInterface st then call notifySlotDelayedStaticUpdate st else st)"

definition forceStartAsyncRegenerationJob ::
  "('p, 't, 'd) KisTransformMask \<Rightarrow> ('p, 't, 'd) KisTransformMask" where
  "forceStartAsyncRegenerationJob st =
     startAsyncRegenerationJob
       (call updateSignalCompressor_stop
          (st\<lparr>staticCache := invalidateDeviceCache (staticCache st)\<rparr>))"

text \<open>The jobs submitted to the scheduler of the image, oldest first.\<close>

fun submitted_jobs :: "mask_call list \<Rightarrow> QRect list" where
  "submitted_jobs [] = []"
| "submitted_jobs (addSpontaneousJob rc # cs) = rc # submitted_jobs cs"
| "submitted_jobs (c # cs) = submitted_jobs cs"

subsection \<open>Change and need rectangles\<close>

text \<open>
  Both functions ignore the position argument (\<open>Q_UNUSED(pos)\<close>) and return an empty
  rectangle as it is. Without a parent the bounds are \<open>QRect(0,0,777,777)\<close> and the
  rectangle of interest is \<open>QRect(0,0,888,888)\<close>. What a non-empty rectangle is mapped
  to is decided by the safe transform, that is by floating-point matrix arithmetic and
  rounding, or by the non-affine parameters; both are parameters here, so the model says
  nothing about how \<open>needRect\<close> and \<open>changeRect\<close> compose on non-empty rectangles.
\<close>

definition parent_geometry :: "('p, 't, 'd) KisTransformMask \<Rightarrow> QRect \<times> QRect" where
  "parent_geometry st =
     (case parent st of
        Some parentNode \<Rightarrow> (parent_bounds parentNode, parent_extent parentNode)
      | None \<Rightarrow> (QRect_xywh 0 0 777 777, QRect_xywh 0 0 888 888))"

definition changeRect ::
  "('p, 't, 'd) mask_ops \<Rightarrow> ('p, 't, 'd) KisTransformMask \<Rightarrow> QRect \<Rightarrow> PositionToFilthy \<Rightarrow> QRect" where
  "changeRect M st rect pos =
     (if isEmpty rect then rect
      else
        (let params = bakeIntoParams st in
         if isAffine M params then
           (let (bounds, interestRect) = parent_geometry st;
                limitingRect = blowRect M bounds (offBoundsReadArea st)
            in mapRectForward M (finalAffineTransform M params) limitingRect interestRect rect)
         else nonAffineChangeRect M params rect))"

definition needRect ::
  "('p, 't, 'd) mask_ops \<Rightarrow> ('p, 't, 'd) KisTransformMask \<Rightarrow> QRect \<Rightarrow> PositionToFilthy \<Rightarrow> QRect" where
  "needRect M st rect pos =
     (if isEmpty rect then rect
      else
        (let params = bakeIntoParams st;
             (bounds, interestRect) = parent_geometry st
         in
         if isAffine M params then
           (let limitingRect = blowRect M bounds (offBoundsReadArea st)
            in kisGrowRect M
                 (mapRectBackward M (finalAffineTransform M params) limitingRect interestRect rect)
                 1)
         else nonAffineNeedRect M params rect interestRect))"

text \<open>
  Modelled from the spec: the node classes other than the transform mask are not among
  the sources. The specification names the identity (pass-through) node, for which
  \<open>changeRect\<close> and \<open>needRect\<close> are both the identity, beside the transform mask with
  affine and with non-affine parameters.
\<close>

datatype ('p, 't, 'd) node =
    PassThroughNode
  | TransformMaskNode "('p, 't, 'd) KisTransformMask"

fun node_changeRect ::
  "('p, 't, 'd) mask_ops \<Rightarrow> ('p, 't, 'd) node \<Rightarrow> QRect \<Rightarrow> PositionToFilthy \<Rightarrow> QRect" where
  "node_changeRect M PassThroughNode rect pos = rect"
| "node_changeRect M (TransformMaskNode st) rect pos = changeRect M st rect pos"

fun node_needRect ::
  "('p, 't, 'd) mask_ops \<Rightarrow> ('p, 't, 'd) node \<Rightarrow> QRect \<Rightarrow> PositionToFilthy \<Rightarrow> QRect" where
  "node_needRect M PassThroughNode rect pos = rect"
| "node_needRect M (TransformMaskNode st) rect pos = needRect M st rect pos"

subsection \<open>decorateRect\<close>

text \<open>
  \<open>decorateRect\<close> either returns a rectangle together with the state it leaves, or does not
  return: \<open>Q_ASSERT_X(src != dst, ...)\<close> stops the program when the two pointers are equal
  (where assertions are compiled in), and calling \<open>clear()\<close> or copying from the cache
  device needs that device to be allocated. The \<open>..._RECOVER_NOOP\<close> checks continue.
  \<open>src\<close> and \<open>dst\<close> are non-null pointers into the store.
\<close>

datatype failure = Assert_src_neq_dst | Null_staticCacheDevice

definition runWorker ::
  "('p, 't, 'd) mask_ops \<Rightarrow> 'p \<Rightarrow> addr \<Rightarrow> addr \<Rightarrow> QRect \<Rightarrow> ('p, 't, 'd) KisTransformMask
     \<Rightarrow> ('p, 't, 'd) KisTransformMask" where
  "runWorker M params src dst rc st =
     (let w = \<lparr>forceSubPixelTranslation = isAnimated st,
                forwardTransform = finalAffineTransform M params\<rparr>;
          h = devices st
      in st\<lparr>worker := w,
            devices := write_cell dst (runPartialDst M w (cells h src) (cells h dst) rc) h\<rparr>)"

definition triggerStaticImageUpdate ::
  "('p, 't, 'd) KisTransformMask \<Rightarrow> ('p, 't, 'd) KisTransformMask" where
  "triggerStaticImageUpdate st =
     (let st1 = (if testingInterface st
                 then call notifyDecorateRectTriggeredStaticImageUpdate st else st);
          st2 = st1\<lparr>staticCache := invalidateDeviceCache (staticCache st1)\<rparr>
      in call updateSignalCompressor_start st2)"

definition decorateRect ::
  "('p, 't, 'd) mask_ops \<Rightarrow> ('d, 'cs, 'b) device_ops \<Rightarrow> addr \<Rightarrow> addr \<Rightarrow> QRect
     \<Rightarrow> PositionToFilthy \<Rightarrow> KisRenderPassFlag set \<Rightarrow> ('p, 't, 'd) KisTransformMask
     \<Rightarrow> failure + QRect \<times> ('p, 't, 'd) KisTransformMask" where
  "decorateRect M D src dst rc maskPos flags st =
     (if src = dst then Inl Assert_src_neq_dst
      else
        (let params = bakeIntoParams st in
         if isHidden M params then Inr (rc, st)
         else if externalFrameActive st then
           (if isAffine M params then Inr (rc, runWorker M params src dst rc st)
            else Inr (rc, st))
         else
           (let st1 =
                  (if \<not> isCacheOverridden (staticCache st) \<and>
                      \<not> recalculatingStaticImage st \<and>
                      (maskPos = N_FILTHY \<or> maskPos = N_ABOVE_FILTHY \<or>
                       \<not> isCacheValid (compareTransform M) (staticCache st) (Some params)) \<and>
                      NoTransformMaskUpdates \<notin> flags
                   then triggerStaticImageUpdate st
                   else st);
                rendered =
                  (if recalculatingStaticImage st1 then
                     (case device (staticCache st1) of
                        None \<Rightarrow> Inl Null_staticCacheDevice
                      | Some c \<Rightarrow>
                          (let h = devices st1;
                               h1 = write_cell c (clearDevice D (cells h c)) h;
                               h2 = write_cell c
                                      (transformDevice M params (cells h1 src) (cells h1 c)
                                         (isAnimated st1))
                                      h1;
                               updatedRect = extent D (cells h2 c);
                               h3 = write_cell dst
                                      (copyAreaOptimized D (topLeft updatedRect)
                                         (cells h2 c) (cells h2 dst) updatedRect)
                                      h2
                           in Inr (st1\<lparr>devices := h3,
                                       staticCache :=
                                         setDeviceCacheValid (Some params) (staticCache st1)\<rparr>)))
                   else if isAffine M params \<and>
                           \<not> isCacheValid (compareTransform M) (staticCache st1) (Some params)
                   then Inr (runWorker M params src dst rc st1)
                   else if isCacheValid (compareTransform M) (staticCache st1) (Some params)
                   then
                     (case device (staticCache st1) of
                        None \<Rightarrow> Inl Null_staticCacheDevice
                      | Some c \<Rightarrow>
                          (let h = devices st1
                           in Inr (st1\<lparr>devices :=
                                         write_cell dst
                                           (copyAreaOptimized D (topLeft rc)
                                              (cells h c) (cells h dst) rc)
                                           h\<rparr>)))
                   else Inr st1)
            in case rendered of
                 Inl e \<Rightarrow> Inl e
               | Inr st2 \<Rightarrow> Inr (rc, call busyProgressIndicator_update st2))))"

text \<open>
  The cache device is allocated whenever the static image is being recalculated or the
  cache is marked valid: \<open>recalculateStaticImage\<close> allocates it before it sets
  \<open>recalculatingStaticImage\<close>, and the cache becomes valid only after the device has been
  written.
\<close>

definition cache_device_allocated :: "('p, 't, 'd) KisTransformMask \<Rightarrow> bool" where
  "cache_device_allocated st =
     (recalculatingStaticImage st \<or> staticCacheValid (staticCache st)
        \<longrightarrow> staticCacheDevice (staticCache st) \<noteq> None)"



section \<open>Concrete instances\<close>

text \<open>
  Small instances of the parameters and of the states, on which the definitions above
  can be evaluated: devices, colour spaces, parameters, transforms and nodes are natural
  numbers.
\<close>

definition example_device_ops :: "(nat, nat, nat) device_ops" where
  "example_device_ops =
     \<lparr>newDevice = (\<lambda>cs. 0),
      setDefaultBounds = (\<lambda>b d. d),
      colorSpace = (\<lambda>d. 0),
      clearDevice = (\<lambda>d. 0),
      extent = (\<lambda>d. QRect_xywh 0 0 (int d) (int d)),
      copyAreaOptimized = (\<lambda>pt src dst rc. src)\<rparr>"

definition example_store :: "nat store" where
  "example_store = \<lparr>cells = (\<lambda>a. if a = 0 then 5 else 9), fresh = 2\<rparr>"

definition overridden_storage :: "nat StaticCacheStorage" where
  "overridden_storage =
     \<lparr>staticCacheIsOverridden = True, staticCacheValid = True,
      staticCacheDevice = Some 0, paramsForStaticImage = None\<rparr>"

definition fresh_storage :: "nat StaticCacheStorage" where
  "fresh_storage = StaticCacheStorage_init"

definition postponed_proxy :: KisPaintOpPresetUpdateProxy where
  "postponed_proxy = postponeSettingsChanges KisPaintOpPresetUpdateProxy_init"

definition example_image :: "(nat, nat) KisImage" where
  "example_image =
     \<lparr>image_profile = 1, image_colorSpace = 2, xRes = 1, yRes = 1,
      invalidateAllFrames_calls = 0\<rparr>"

definition live_router :: "(nat, nat, nat) KisImageSignalRouter" where
  "live_router = \<lparr>m_image = Some example_image, delivered = [], sigNotification_queue = []\<rparr>"

definition orphaned_router :: "(nat, nat, nat) KisImageSignalRouter" where
  "orphaned_router = \<lparr>m_image = None, delivered = [], sigNotification_queue = []\<rparr>"

definition notification ::
  "KisImageSignalTypeEnum \<Rightarrow> nat option \<Rightarrow> nat list \<Rightarrow> nat KisImageSignalType" where
  "notification k node nodes =
     \<lparr>id' = k,
      sizeChangedSignal = \<lparr>oldStillPoint = (0, 0), newStillPoint = (0, 0)\<rparr>,
      nodeReselectionSignal = \<lparr>newActiveNode = node, newSelectedNodes = nodes\<rparr>\<rparr>"

definition example_mask_ops :: "(nat, nat, nat) mask_ops" where
  "example_mask_ops =
     \<lparr>isHidden = (\<lambda>p. False),
      isAffine = (\<lambda>p. p = 0),
      finalAffineTransform = (\<lambda>p. p),
      compareTransform = (\<lambda>q P. P = Some q),
      nonAffineChangeRect = (\<lambda>p rc. QRect_xywh 0 0 10 10),
      nonAffineNeedRect = (\<lambda>p rc interest. QRect_xywh 0 0 10 10),
      transformDevice = (\<lambda>p src dst f. src),
      runPartialDst = (\<lambda>w src dst rc. src),
      blowRect = (\<lambda>rc coeff. rc),
      kisGrowRect =
        (\<lambda>rc w. \<lparr>x1 = x1 rc - w, y1 = y1 rc - w, x2 = x2 rc + w, y2 = y2 rc + w\<rparr>),
      mapRectForward = (\<lambda>t limitingRect interestRect rc. QRect_xywh 0 0 10 10),
      mapRectBackward = (\<lambda>t limitingRect interestRect rc. QRect_xywh 0 0 10 10)\<rparr>"

definition locked_parent :: parent_node where
  "locked_parent =
     \<lparr>parent_isLayer = True, parent_bounds = QRect_xywh 0 0 100 100,
      parent_extent = QRect_xywh 0 0 64 64, parent_image_locked = Some True\<rparr>"

definition example_mask :: "(nat, nat, nat) KisTransformMask" where
  "example_mask =
     \<lparr>worker = \<lparr>forceSubPixelTranslation = True, forwardTransform = 0\<rparr>,
      bakeIntoParams = 0,
      isAnimated = False,
      externalFrameActive = False,
      staticCache = StaticCacheStorage_init,
      recalculatingStaticImage = False,
      forcedStaticUpdateExtraUpdateRect = QRect_xywh 3 3 4 4,
      offBoundsReadArea = 1 / 2,
      testingInterface = False,
      parent = Some locked_parent,
      devices = example_store,
      calls = []\<rparr>"



section \<open>Properties of StaticCacheStorage\<close>

text \<open>
  C1. For every parameters pointer \<open>P\<close> and every state of the storage,
  \<open>isCacheValid(P)\<close> is true exactly when the valid flag is set and the stored
  \<open>paramsForStaticImage\<close> is null or compares equal to \<open>P\<close>.
\<close>

theorem isCacheValid_iff:
  "isCacheValid cmp s P \<longleftrightarrow>
     staticCacheValid s \<and>
     (paramsForStaticImage s = None \<or> (\<exists>q. paramsForStaticImage s = Some q \<and> cmp q P))"
  by (cases "paramsForStaticImage s") (simp_all add: isCacheValid_def)

text \<open>
  The equivalence at two states: an overridden cache (valid, no parameters stored) is
  valid for any parameters, a cache that was never filled is valid for none.
\<close>

theorem isCacheValid_iff_witness:
  "isCacheValid (\<lambda>q P. P = Some q) overridden_storage (Some 7) \<and>
   \<not> isCacheValid (\<lambda>q P. P = Some q) fresh_storage (Some 7)"
  using isCacheValid_iff [of "\<lambda>q P. P = Some q" overridden_storage "Some 7"]
    isCacheValid_iff [of "\<lambda>q P. P = Some q" fresh_storage "Some 7"]
  by (simp add: overridden_storage_def fresh_storage_def StaticCacheStorage_init_def)

text \<open>
  C4, as amended. On a storage whose cache device \<open>c\<close> is allocated,
  \<open>overrideStaticCacheDevice(dev)\<close> sets the overridden and the valid flag to \<open>bool(dev)\<close>,
  drops \<open>paramsForStaticImage\<close>, keeps the pointer to the cache device and touches no
  other device. The cache device is cleared when \<open>dev\<close> is null; it is cleared and then
  receives the extent of the supplied device when \<open>dev\<close> is another device; when \<open>dev\<close>
  is the cache device itself, that device is cleared first and then copied onto itself.
  After \<open>overrideStaticCacheDevice(null)\<close>, also when it follows an earlier override,
  \<open>isCacheValid\<close> and \<open>isCacheOverridden\<close> are false. On a storage with no cache device
  the call changes nothing.
\<close>

theorem overrideStaticCacheDevice_allocated:
  "(staticCacheDevice s = None \<longrightarrow> overrideStaticCacheDevice D dev (h, s) = (h, s)) \<and>
   (\<forall>c. staticCacheDevice s = Some c \<longrightarrow>
      (let h' = fst (overrideStaticCacheDevice D dev (h, s));
           s' = snd (overrideStaticCacheDevice D dev (h, s));
           s'' = snd (overrideStaticCacheDevice D None (overrideStaticCacheDevice D dev (h, s)));
           cleared = clearDevice D (cells h c)
       in staticCacheIsOverridden s' = (dev \<noteq> None) \<and>
          staticCacheValid s' = (dev \<noteq> None) \<and>
          paramsForStaticImage s' = None \<and>
          staticCacheDevice s' = Some c \<and>
          fresh h' = fresh h \<and>
          (\<forall>a. a \<noteq> c \<longrightarrow> cells h' a = cells h a) \<and>
          (dev = None \<longrightarrow> cells h' c = cleared) \<and>
          (\<forall>d. dev = Some d \<and> d \<noteq> c \<longrightarrow>
             cells h' c =
               copyAreaOptimized D (topLeft (extent D (cells h d))) (cells h d) cleared
                 (extent D (cells h d))) \<and>
          (dev = Some c \<longrightarrow>
             cells h' c =
               copyAreaOptimized D (topLeft (extent D cleared)) cleared cleared
                 (extent D cleared)) \<and>
          (dev = None \<longrightarrow> \<not> isCacheValid cmp s' P \<and> \<not> isCacheOverridden s') \<and>
          \<not> isCacheValid cmp s'' P \<and> \<not> isCacheOverridden s''))"
  by (auto simp: overrideStaticCacheDevice_def write_cell_def Let_def isCacheValid_def
        isCacheOverridden_def split: option.splits)

text \<open>
  An allocated and overridden cache: overriding it with device 1 leaves the flags set and
  puts the content of device 1 into the cache device 0; overriding it with null clears
  the override.
\<close>

theorem overrideStaticCacheDevice_allocated_witness:
  "staticCacheDevice overridden_storage = Some 0 \<and>
   snd (overrideStaticCacheDevice example_device_ops (Some 1) (example_store, overridden_storage)) =
     overridden_storage \<and>
   cells (fst (overrideStaticCacheDevice example_device_ops (Some 1)
                 (example_store, overridden_storage))) 0 = 9 \<and>
   \<not> isCacheOverridden
       (snd (overrideStaticCacheDevice example_device_ops None (example_store, overridden_storage)))"
  using overrideStaticCacheDevice_allocated
    [of overridden_storage example_device_ops "Some 1" example_store "\<lambda>q r. True" None]
    overrideStaticCacheDevice_allocated
    [of overridden_storage example_device_ops None example_store "\<lambda>q r. True" None]
  by (simp add: overridden_storage_def example_device_ops_def example_store_def
        overrideStaticCacheDevice_def write_cell_def isCacheOverridden_def Let_def)

text \<open>
  C4 as stated fails on a storage that has not allocated its cache device yet: the call
  with a device returns at its first line, and neither flag becomes \<open>bool(device)\<close>.
\<close>

theorem overrideStaticCacheDevice_unallocated_counterexample:
  "\<not> (staticCacheIsOverridden
        (snd (overrideStaticCacheDevice example_device_ops (Some 1)
                (example_store, fresh_storage))) = (Some (1::nat) \<noteq> None)) \<and>
   \<not> (staticCacheValid
        (snd (overrideStaticCacheDevice example_device_ops (Some 1)
                (example_store, fresh_storage))) = (Some (1::nat) \<noteq> None))"
  by (simp add: overrideStaticCacheDevice_def fresh_storage_def StaticCacheStorage_init_def)

lemma lazyAllocateStaticCache_flags:
  "staticCacheIsOverridden (snd (lazyAllocateStaticCache D cs b hs)) =
     staticCacheIsOverridden (snd hs) \<and>
   staticCacheValid (snd (lazyAllocateStaticCache D cs b hs)) = staticCacheValid (snd hs)"
  by (simp add: lazyAllocateStaticCache_def Let_def)

lemma overrideStaticCacheDevice_invariant:
  "overridden_implies_valid (snd hs) \<Longrightarrow>
   overridden_implies_valid (snd (overrideStaticCacheDevice D dev hs))"
  by (simp add: overrideStaticCacheDevice_def overridden_implies_valid_def Let_def
        split: option.splits)

text \<open>
  C6, as amended. Every operation of the storage applied to a state with
  \<open>overridden \<Longrightarrow> valid\<close> leaves a state with \<open>overridden \<Longrightarrow> valid\<close>, provided that
  \<open>invalidateDeviceCache\<close> is only applied where the condition it asserts holds, that is,
  to a cache that is not overridden. Applied to an overridden cache,
  \<open>invalidateDeviceCache\<close> leaves the cache overridden and not valid.
\<close>

theorem cache_step_preserves_invariant:
  "(overridden_implies_valid (snd hs) \<and>
    (op = Op_invalidateDeviceCache \<longrightarrow> invalidateDeviceCache_asserted (snd hs))
    \<longrightarrow> overridden_implies_valid (snd (cache_step D op hs))) \<and>
   (op = Op_invalidateDeviceCache \<and> \<not> invalidateDeviceCache_asserted (snd hs)
    \<longrightarrow> \<not> overridden_implies_valid (snd (cache_step D op hs)))"
proof (cases op)
  case (Op_lazyAllocateStaticCache cs b)
  then show ?thesis
    using lazyAllocateStaticCache_flags [of D cs b hs]
    by (simp add: overridden_implies_valid_def)
next
  case (Op_overrideStaticCacheDevice dev)
  then show ?thesis
    by (simp add: overrideStaticCacheDevice_invariant)
next
  case Op_invalidateDeviceCache
  then show ?thesis
    by (simp add: overridden_implies_valid_def invalidateDeviceCache_def
          invalidateDeviceCache_asserted_def)
qed (simp_all add: overridden_implies_valid_def setDeviceCacheValid_def)

text \<open>
  Clearing an override keeps the invariant, and so does invalidating a cache that is
  not overridden.
\<close>

theorem cache_step_preserves_invariant_witness:
  "overridden_implies_valid overridden_storage \<and>
   overridden_implies_valid
     (snd (cache_step example_device_ops
             (Op_overrideStaticCacheDevice None :: (nat, nat, nat) cache_op)
             (example_store, overridden_storage))) \<and>
   invalidateDeviceCache_asserted fresh_storage \<and>
   overridden_implies_valid
     (snd (cache_step example_device_ops (Op_invalidateDeviceCache :: (nat, nat, nat) cache_op)
             (example_store, fresh_storage)))"
  using cache_step_preserves_invariant
      [of "(example_store, overridden_storage)" "Op_overrideStaticCacheDevice None"
          example_device_ops]
    cache_step_preserves_invariant
      [of "(example_store, fresh_storage)" Op_invalidateDeviceCache example_device_ops]
  by (simp add: overridden_implies_valid_def overridden_storage_def fresh_storage_def
        StaticCacheStorage_init_def invalidateDeviceCache_asserted_def)

text \<open>
  C6 as stated fails for \<open>invalidateDeviceCache\<close>: applied to an overridden (hence valid)
  cache it clears the valid flag and leaves the overridden flag set.
\<close>

theorem invalidateDeviceCache_breaks_invariant_counterexample:
  "overridden_implies_valid overridden_storage \<and>
   \<not> overridden_implies_valid
       (snd (cache_step example_device_ops (Op_invalidateDeviceCache :: (nat, nat, nat) cache_op)
               (example_store, overridden_storage)))"
  by (simp add: overridden_implies_valid_def overridden_storage_def invalidateDeviceCache_def)


section \<open>Properties of the update proxy\<close>

lemma notify_while_blocked:
  "updatesBlocked p \<noteq> 0 \<Longrightarrow>
   (notifySettingsChanged ^^ N) p =
     p\<lparr>numUpdatesWhileBlocked := numUpdatesWhileBlocked p + int N\<rparr>"
proof (induction N)
  case 0
  then show ?case by simp
next
  case (Suc N)
  then show ?case
    by (simp add: notifySettingsChanged_def add.assoc)
qed

text \<open>
  C3, as amended. Let the proxy be postponed once (\<open>updatesBlocked = 1\<close>). Then \<open>N\<close> calls
  of \<open>notifySettingsChanged()\<close> followed by one \<open>unpostponeSettingsChanges()\<close> emit, for
  every \<open>N \<ge> 1\<close>, exactly one early warning, one uncompressed and one terminal signal, in
  this order, whatever \<open>N\<close> is; for \<open>N = 0\<close> they emit nothing, unless an update suppressed
  earlier in the postponement is still counted. Nothing else changes but the two
  counters, which are zero afterwards; in particular the compressor is not started.
\<close>

theorem unpostpone_after_suppressed_notifications:
  assumes "updatesBlocked p = 1"
    and "0 \<le> numUpdatesWhileBlocked p"
    and "numUpdatesWhileBlocked p + int N \<le> 2147483647"
  shows "unpostponeSettingsChanges ((notifySettingsChanged ^^ N) p) =
           p\<lparr>updatesBlocked := 0, numUpdatesWhileBlocked := 0,
             proxy_emitted := proxy_emitted p @
               (if N = 0 \<and> numUpdatesWhileBlocked p = 0 then []
                else [sigSettingsChangedUncompressedEarlyWarning,
                      sigSettingsChangedUncompressed,
                      sigSettingsChanged])\<rparr>"
proof -
  have blocked: "updatesBlocked p \<noteq> 0"
    using assms(1) by simp
  have sum0: "numUpdatesWhileBlocked p + int N = 0 \<longleftrightarrow> N = 0 \<and> numUpdatesWhileBlocked p = 0"
    using assms(2) by auto
  show ?thesis
    using assms(1) sum0
    by (simp add: notify_while_blocked [OF blocked] unpostponeSettingsChanges_def Let_def)
qed

text \<open>Five suppressed notifications on a freshly postponed proxy give the three signals.\<close>

theorem unpostpone_after_suppressed_notifications_witness:
  "updatesBlocked postponed_proxy = 1 \<and>
   emitted_since postponed_proxy
     (unpostponeSettingsChanges ((notifySettingsChanged ^^ 5) postponed_proxy)) =
     [sigSettingsChangedUncompressedEarlyWarning, sigSettingsChangedUncompressed,
      sigSettingsChanged]"
proof -
  have b: "updatesBlocked postponed_proxy = 1"
    by (simp add: postponed_proxy_def postponeSettingsChanges_def
          KisPaintOpPresetUpdateProxy_init_def)
  have k: "0 \<le> numUpdatesWhileBlocked postponed_proxy"
    by (simp add: postponed_proxy_def postponeSettingsChanges_def
          KisPaintOpPresetUpdateProxy_init_def)
  have m: "numUpdatesWhileBlocked postponed_proxy + int 5 \<le> 2147483647"
    by (simp add: postponed_proxy_def postponeSettingsChanges_def
          KisPaintOpPresetUpdateProxy_init_def)
  show ?thesis
    using b unpostpone_after_suppressed_notifications [OF b k m]
    by (simp add: emitted_since_def)
qed

text \<open>
  C3 as stated fails for \<open>N = 0\<close>: a new proxy that is postponed and unpostponed with no
  notification in between emits no signal at all.
\<close>

theorem unpostpone_without_notifications_counterexample:
  "emitted_since postponed_proxy
     (unpostponeSettingsChanges ((notifySettingsChanged ^^ 0) postponed_proxy)) = []"
  by (simp add: emitted_since_def postponed_proxy_def postponeSettingsChanges_def
        unpostponeSettingsChanges_def KisPaintOpPresetUpdateProxy_init_def Let_def)


section \<open>Properties of the signal router\<close>
















text \<open>
  C8, as amended. For a \<open>NodeReselectionRequestSignal\<close> notification the router emits
  \<open>sigRequestNodeReselection\<close> with the payload of the notification, and does nothing
  else, when its image is still alive and the new active node is not null or the list
  of new selected nodes is not empty. When both are empty, or when the image is gone,
  the router emits nothing and its state is unchanged.
\<close>

theorem slotNotification_reselection:
  assumes "id' type = NodeReselectionRequestSignal"
  shows "slotNotification type r =
           (if m_image r \<noteq> None \<and>
               (newActiveNode (nodeReselectionSignal type) \<noteq> None \<or>
                newSelectedNodes (nodeReselectionSignal type) \<noteq> [])
            then r\<lparr>delivered := delivered r @
                     [sigRequestNodeReselection
                        (newActiveNode (nodeReselectionSignal type))
                        (newSelectedNodes (nodeReselectionSignal type))]\<rparr>
            else r)"
  using assms
  by (simp add: slotNotification_def emit_signal_def split: option.splits)

text \<open>
  With a live image, a request naming node 3 and the nodes 4 and 5 is delivered, an
  empty request is not.
\<close>

theorem slotNotification_reselection_witness:
  "id' (notification NodeReselectionRequestSignal (Some 3) [4, 5]) = NodeReselectionRequestSignal \<and>
   delivered (slotNotification (notification NodeReselectionRequestSignal (Some 3) [4, 5])
                live_router) =
     [sigRequestNodeReselection (Some 3) [4, 5]] \<and>
   delivered (slotNotification (notification NodeReselectionRequestSignal None []) live_router) = []"
proof -
  have a: "id' (notification NodeReselectionRequestSignal (Some 3) [4, 5]) =
             NodeReselectionRequestSignal"
    by (simp add: notification_def)
  have b: "id' (notification NodeReselectionRequestSignal None []) = NodeReselectionRequestSignal"
    by (simp add: notification_def)
  show ?thesis
    using a slotNotification_reselection [OF a, of live_router]
      slotNotification_reselection [OF b, of live_router]
    by (simp add: notification_def live_router_def)
qed

text \<open>
  C8 as stated fails when the image of the router is gone: a request with a new active
  node is not delivered.
\<close>

theorem slotNotification_reselection_counterexample:
  "newActiveNode (nodeReselectionSignal (notification NodeReselectionRequestSignal (Some 3) [4, 5]))
     \<noteq> None \<and>
   delivered (slotNotification (notification NodeReselectionRequestSignal (Some 3) [4, 5])
                orphaned_router) = []"
  by (simp add: notification_def orphaned_router_def slotNotification_def)


section \<open>Properties of the transform mask\<close>

lemma submitted_jobs_compressor_start:
  "submitted_jobs (cs @ [updateSignalCompressor_start]) = submitted_jobs cs"
  by (induction cs rule: submitted_jobs.induct) simp_all

text \<open>
  C9. When \<open>startAsyncRegenerationJob\<close> runs while the image of the parent layer reports
  \<open>locked()\<close>, it submits no job; it starts the update signal compressor again and
  changes nothing else in the state of the mask.
\<close>

theorem startAsyncRegenerationJob_locked:
  assumes "parent st = Some p"
    and "parent_isLayer p"
    and "parent_image_locked p = Some True"
  shows "startAsyncRegenerationJob st = st\<lparr>calls := calls st @ [updateSignalCompressor_start]\<rparr> \<and>
         submitted_jobs (calls (startAsyncRegenerationJob st)) = submitted_jobs (calls st)"
proof -
  have eq: "startAsyncRegenerationJob st = st\<lparr>calls := calls st @ [updateSignalCompressor_start]\<rparr>"
    using assms by (simp add: startAsyncRegenerationJob_def call_def)
  with submitted_jobs_compressor_start [of "calls st"] show ?thesis by simp
qed

text \<open>
  A mask under a locked image: the only call is the restart of the compressor, and the
  accumulated extra rectangle is still there.
\<close>

theorem startAsyncRegenerationJob_locked_witness:
  "parent example_mask = Some locked_parent \<and> parent_isLayer locked_parent \<and>
   parent_image_locked locked_parent = Some True \<and>
   calls (startAsyncRegenerationJob example_mask) = [updateSignalCompressor_start] \<and>
   forcedStaticUpdateExtraUpdateRect (startAsyncRegenerationJob example_mask) = QRect_xywh 3 3 4 4"
proof -
  have a: "parent example_mask = Some locked_parent"
    by (simp add: example_mask_def)
  have b: "parent_isLayer locked_parent"
    by (simp add: locked_parent_def)
  have c: "parent_image_locked locked_parent = Some True"
    by (simp add: locked_parent_def)
  show ?thesis
    using a b c startAsyncRegenerationJob_locked [OF a b c]
    by (simp add: example_mask_def)
qed

text \<open>
  C5. For every node kind and every position, \<open>changeRect\<close> of an empty rectangle is that
  rectangle, and so is \<open>needRect\<close> of it: for the transform mask whatever its parameters
  (affine or not) and its parent are, and for the pass-through node.
\<close>

theorem empty_rect_unchanged:
  assumes "isEmpty rect"
  shows "node_changeRect M n rect pos = rect \<and> node_needRect M n rect pos = rect"
  using assms by (cases n) (simp_all add: changeRect_def needRect_def)

text \<open>The default rectangle \<open>(0, 0, -1, -1)\<close> is empty and comes back from both functions.\<close>

theorem empty_rect_unchanged_witness:
  "isEmpty QRect_default \<and>
   node_changeRect example_mask_ops (TransformMaskNode example_mask) QRect_default N_BELOW_FILTHY
     = QRect_default \<and>
   node_needRect example_mask_ops (TransformMaskNode example_mask) QRect_default N_ABOVE_FILTHY
     = QRect_default"
proof -
  have e: "isEmpty QRect_default"
    by (simp add: isEmpty_def QRect_default_def)
  show ?thesis
    using e
      empty_rect_unchanged [OF e, of example_mask_ops "TransformMaskNode example_mask"
        N_BELOW_FILTHY]
      empty_rect_unchanged [OF e, of example_mask_ops "TransformMaskNode example_mask"
        N_ABOVE_FILTHY]
    by simp
qed

lemma triggerStaticImageUpdate_fields:
  "recalculatingStaticImage (triggerStaticImageUpdate st) = recalculatingStaticImage st"
  "staticCacheDevice (staticCache (triggerStaticImageUpdate st)) =
     staticCacheDevice (staticCache st)"
  "\<not> staticCacheValid (staticCache (triggerStaticImageUpdate st))"
  by (simp_all add: triggerStaticImageUpdate_def call_def invalidateDeviceCache_def Let_def)

lemma decorateRect_result:
  "decorateRect M D src dst rc maskPos flags st = Inr (r, st') \<Longrightarrow> r = rc"
  by (auto simp: decorateRect_def Let_def split: if_splits sum.splits option.splits)

lemma decorateRect_returns:
  assumes "src \<noteq> dst" and "cache_device_allocated st"
  shows "\<exists>st'. decorateRect M D src dst rc maskPos flags st = Inr (rc, st')"
proof -
  obtain res where res: "decorateRect M D src dst rc maskPos flags st = res" by simp
  show ?thesis
  proof (cases res)
    case (Inl e)
    with res assms have False
      by (auto simp: decorateRect_def Let_def cache_device_allocated_def device_def
            isCacheValid_def triggerStaticImageUpdate_fields
            split: if_splits sum.splits option.splits)
    then show ?thesis ..
  next
    case (Inr v)
    with res decorateRect_result [of M D src dst rc maskPos flags st "fst v" "snd v"]
    show ?thesis by (cases v) auto
  qed
qed

text \<open>
  C10. Whatever the rectangle \<open>rc\<close>, the devices, the position, the flags and the state of
  the mask are, a rectangle returned by \<open>decorateRect\<close> is \<open>rc\<close> itself, on every path:
  hidden parameters, external frame, recalculation of the cache, partial transform, fetch
  from the cache, and the path that does none of these. And \<open>decorateRect\<close> does return
  when \<open>src\<close> and \<open>dst\<close> are different devices, as its first assertion requires, and the
  cache device is allocated where it is used.
\<close>

theorem decorateRect_returns_rc:
  "(\<forall>r st'. decorateRect M D src dst rc maskPos flags st = Inr (r, st') \<longrightarrow> r = rc) \<and>
   (src \<noteq> dst \<and> cache_device_allocated st \<longrightarrow>
      (\<exists>st'. decorateRect M D src dst rc maskPos flags st = Inr (rc, st')))"
  using decorateRect_result [of M D src dst rc maskPos flags st]
    decorateRect_returns [of src dst st M D rc maskPos flags]
  by blast

text \<open>
  A mask with affine parameters and an invalid cache, asked for the rectangle
  \<open>QRect(0,0,8,8)\<close> at the filthy position: the partial transform runs and the rectangle
  comes back.
\<close>

theorem decorateRect_returns_rc_witness:
  "(0::nat) \<noteq> 1 \<and> cache_device_allocated example_mask \<and>
   (case decorateRect example_mask_ops example_device_ops 0 1 (QRect_xywh 0 0 8 8) N_FILTHY {}
           example_mask of
      Inl e \<Rightarrow> False
    | Inr v \<Rightarrow> fst v = QRect_xywh 0 0 8 8)"
  using decorateRect_returns_rc
    [of example_mask_ops example_device_ops 0 1 "QRect_xywh 0 0 8 8" N_FILTHY "{}" example_mask]
  by (auto simp: cache_device_allocated_def example_mask_def StaticCacheStorage_init_def)

end
